theory Spec2Isabelle
  imports Complex_Main "HOL-Library.AList"
begin

section \<open>Python values and library functions used by flatfile\_parser.py\<close>

text \<open>
  The program is dynamically typed Python 3. Its dictionaries keep insertion order, so a
  dictionary is an association list: \<open>map_of\<close> is lookup, \<open>AList.update\<close> is item
  assignment (in place for a key that is present, appended for a new key) and
  \<open>AList.delete\<close> is \<open>del\<close>.

  Python floats are modelled as exact reals: the rounding of double arithmetic is not part
  of the model. Python identifies the dictionary keys \<open>9\<close> and \<open>9.0\<close>, so a numeric key
  is one constructor \<open>KNum\<close> whatever its Python type.
\<close>

datatype py_error = KeyError | ValueError | TypeError | AttributeError | RegexError

datatype vbl_type = TInt | TFloat | TString

datatype key = KNum real | KStr string

datatype display = DStr string | DBool bool

datatype pyval = PNone | PBool bool | PInt int | PFloat real | PStr string

type_synonym ('k, 'v) dict = "('k \<times> 'v) list"

definition digit_of :: "char \<Rightarrow> nat option" where
  "digit_of c = map_of
     [(CHR ''0'', 0), (CHR ''1'', 1), (CHR ''2'', 2), (CHR ''3'', 3), (CHR ''4'', 4),
      (CHR ''5'', 5), (CHR ''6'', 6), (CHR ''7'', 7), (CHR ''8'', 8), (CHR ''9'', 9)] c"

definition is_digit :: "char \<Rightarrow> bool" where
  "is_digit c = (digit_of c \<noteq> None)"

definition digit_val :: "char \<Rightarrow> nat" where
  "digit_val c = (case digit_of c of None \<Rightarrow> 0 | Some d \<Rightarrow> d)"

text \<open>The characters \<open>str.strip()\<close> and \<open>int()\<close> treat as white space (ASCII range).\<close>

definition is_space :: "char \<Rightarrow> bool" where
  "is_space c = (c \<in> {CHR '' '', CHR 0x09, CHR 0x0A, CHR 0x0B, CHR 0x0C, CHR 0x0D,
                       CHR 0x1C, CHR 0x1D, CHR 0x1E, CHR 0x1F})"

definition strip :: "string \<Rightarrow> string" where
  "strip s = rev (dropWhile is_space (rev (dropWhile is_space s)))"

text \<open>
  \<open>int(s)\<close> for a string: white space around the literal is dropped, one sign is allowed,
  then decimal digits, where single underscores may separate digits. \<open>None\<close> stands for
  the \<open>ValueError\<close> that \<open>int\<close> raises.
\<close>

fun digits_from :: "nat \<Rightarrow> string \<Rightarrow> nat option" where
  "digits_from acc [] = Some acc"
| "digits_from acc [c] = (if is_digit c then Some (10 * acc + digit_val c) else None)"
| "digits_from acc (c # d # cs) =
     (if is_digit c then digits_from (10 * acc + digit_val c) (d # cs)
      else if c = CHR ''_'' \<and> is_digit d then digits_from (10 * acc + digit_val d) cs
      else None)"

definition dec_nat :: "string \<Rightarrow> nat option" where
  "dec_nat s = (case s of [] \<Rightarrow> None
                | c # cs \<Rightarrow> if is_digit c then digits_from (digit_val c) cs else None)"

definition py_int :: "string \<Rightarrow> int option" where
  "py_int s = (case strip s of [] \<Rightarrow> None
     | c # cs \<Rightarrow>
         if c = CHR ''-'' then map_option (\<lambda>n. - int n) (dec_nat cs)
         else if c = CHR ''+'' then map_option int (dec_nat cs)
         else map_option int (dec_nat (c # cs)))"

text \<open>\<open>str(n)\<close> for an integer.\<close>

definition digit_char :: "nat \<Rightarrow> char" where
  "digit_char n = ''0123456789'' ! n"

fun str_nat :: "nat \<Rightarrow> string" where
  "str_nat n = (if n < 10 then [digit_char n] else str_nat (n div 10) @ [digit_char (n mod 10)])"

declare str_nat.simps [simp del]

definition str_int :: "int \<Rightarrow> string" where
  "str_int i = (if i < 0 then CHR ''-'' # str_nat (nat (- i)) else str_nat (nat i))"

text \<open>
  The slice \<open>s[a:b]\<close>: a negative bound counts from the end, and both bounds are clamped
  to the string.
\<close>

definition slice_bound :: "nat \<Rightarrow> int \<Rightarrow> nat" where
  "slice_bound n i = (if i < 0 then nat (max 0 (i + int n)) else min n (nat i))"

definition py_slice :: "string \<Rightarrow> int \<Rightarrow> int \<Rightarrow> string" where
  "py_slice s a b =
     (let lo = slice_bound (length s) a; hi = slice_bound (length s) b
      in take (hi - lo) (drop lo s))"

text \<open>\<open>re.search(p, s)\<close> for a pattern \<open>p\<close> without metacharacters: \<open>p\<close> occurs in \<open>s\<close>.\<close>

fun starts_with :: "string \<Rightarrow> string \<Rightarrow> bool" where
  "starts_with [] s = True"
| "starts_with (p # ps) [] = False"
| "starts_with (p # ps) (c # cs) = (p = c \<and> starts_with ps cs)"

fun contains :: "string \<Rightarrow> string \<Rightarrow> bool" where
  "contains p [] = (p = [])"
| "contains p (c # cs) = (starts_with p (c # cs) \<or> contains p cs)"

text \<open>\<open>', '.join(xs)\<close>.\<close>

fun join_comma :: "string list \<Rightarrow> string" where
  "join_comma [] = []"
| "join_comma [x] = x"
| "join_comma (x # y # ys) = x @ '', '' @ join_comma (y # ys)"

section \<open>The module constants\<close>

definition FLAGGED_CASES :: int where
  "FLAGGED_CASES = 999999"

definition BF_IDENTIFIER :: string where
  "BF_IDENTIFIER = ''When child put to breast''"

definition FLOAT_ERROR :: real where
  "FLOAT_ERROR = 0.001"

section \<open>class DataDictionary\<close>

record byte_range =
  start_pos :: int
  end_pos :: int

record data_dictionary =
  name :: string
  variable_dict :: "(string, string) dict"
  variable_format_dict :: "(string, string) dict"
  vbls_seen :: "string set"
  variable_type :: "(string, vbl_type) dict"
  bytewise_encoding :: "(string, byte_range) dict"
  null_encoding :: "(string, (key, pyval) dict) dict"
  value_dict :: "(string, (key, display) dict) dict"

subsection \<open>add\_bytewise\_encoding and its caller\<close>







subsection \<open>clean\_formats\<close>

text \<open>
  \<open>self.null_encoding[vbl_label]\<close> where the label is known to be present; an absent
  label reads as the empty dictionary, which is what the guards of the source amount to.
\<close>

definition null_dict :: "data_dictionary \<Rightarrow> string \<Rightarrow> (key, pyval) dict" where
  "null_dict self vbl_label =
     (case map_of (null_encoding self) vbl_label of None \<Rightarrow> [] | Some d \<Rightarrow> d)"

text \<open>\<open>if not vbl_label in self.null_encoding: self.null_encoding[vbl_label] = dict()\<close>\<close>

definition ensure_null :: "string \<Rightarrow> data_dictionary \<Rightarrow> data_dictionary" where
  "ensure_null vbl_label self =
     (case map_of (null_encoding self) vbl_label of
        None \<Rightarrow> self\<lparr>null_encoding := AList.update vbl_label [] (null_encoding self)\<rparr>
      | Some d \<Rightarrow> self)"

text \<open>\<open>self.null_encoding[vbl_label][value] = null_value\<close>\<close>

definition put_null :: "string \<Rightarrow> key \<Rightarrow> pyval \<Rightarrow> data_dictionary \<Rightarrow> data_dictionary" where
  "put_null vbl_label k v self =
     self\<lparr>null_encoding :=
       AList.update vbl_label (AList.update k v (null_dict self vbl_label)) (null_encoding self)\<rparr>"

definition put_nulls :: "string \<Rightarrow> (key, pyval) dict \<Rightarrow> data_dictionary \<Rightarrow> data_dictionary" where
  "put_nulls vbl_label rules self = fold (\<lambda>(k, v). put_null vbl_label k v) rules self"

definition sentinel_names :: "display list" where
  "sentinel_names = [DStr ''Don't know'', DStr ''DK'', DStr ''DK '', DStr ''No calendar'',
                     DStr ''Flagged cases'', DStr ''No births'']"

type_synonym erased_formats = "(string, (key, pyval) dict) dict"

text \<open>
  Lines 138 to 166: the branch for a format whose value dictionary \<open>vd\<close> is present. The
  calls of \<open>print\<close> in \<open>clean_formats\<close> write to standard output only and are left out.
\<close>

definition resolve_format ::
  "string \<Rightarrow> string \<Rightarrow> (key, display) dict \<Rightarrow> data_dictionary \<Rightarrow> erased_formats \<Rightarrow>
   string set \<Rightarrow> py_error + data_dictionary \<times> erased_formats" where
  "resolve_format vbl_label vbl_format vd self erased formats_seen =
     (if length vd = 1 \<and> vbl_format \<notin> formats_seen then
        (case vd of
           [] \<Rightarrow> Inr (self, erased)
         | (val, shown) # rest \<Rightarrow>
             if shown \<in> set sentinel_names then
               (case map_of (variable_type self) vbl_label of
                  None \<Rightarrow> Inl KeyError
                | Some ty \<Rightarrow>
                    let self1 = put_null vbl_label val (if ty = TString then PStr [] else PNone)
                                  (ensure_null vbl_label self);
                        self2 = (if shown = DStr ''Flagged cases''
                                 then put_null vbl_label val (PInt FLAGGED_CASES) self1 else self1);
                        self3 = (if shown = DStr ''No births''
                                 then put_null vbl_label val (PInt 0) self2 else self2)
                    in (case map_of (null_dict self3 vbl_label) val of
                          None \<Rightarrow> Inl KeyError
                        | Some null_value \<Rightarrow>
                            Inr (self3\<lparr>value_dict := AList.delete vbl_format (value_dict self3)\<rparr>,
                                 AList.update vbl_format [(val, null_value)] erased)))
             else Inr (self, erased))
      else if length vd = 2 \<and> set (map snd vd) = {DStr ''Yes'', DStr ''No''} then
        Inr (self\<lparr>value_dict :=
                 AList.update vbl_format (map (\<lambda>(k, shown). (k, DBool (shown = DStr ''Yes''))) vd)
                   (value_dict self)\<rparr>,
             erased)
      else Inr (self, erased))"

type_synonym clean_state = "data_dictionary \<times> erased_formats \<times> string set"

text \<open>One iteration of the loop over \<open>list(self.variable_format_dict.keys())\<close>.\<close>

definition clean_step :: "string \<Rightarrow> clean_state \<Rightarrow> py_error + clean_state" where
  "clean_step vbl_label cs =
     (case cs of (self, erased, formats_seen) \<Rightarrow>
        (case map_of (variable_format_dict self) vbl_label of
           None \<Rightarrow> Inl KeyError
         | Some vbl_format \<Rightarrow>
             (case map_of (value_dict self) vbl_format of
                None \<Rightarrow>
                  let self1 = self\<lparr>variable_format_dict :=
                                AList.delete vbl_label (variable_format_dict self)\<rparr>
                  in (case map_of erased vbl_format of
                        Some rules \<Rightarrow>
                          Inr (put_nulls vbl_label rules (ensure_null vbl_label self1),
                               erased, formats_seen)
                      | None \<Rightarrow> Inr (self1, erased, formats_seen))
              | Some vd \<Rightarrow>
                  (case resolve_format vbl_label vbl_format vd self erased formats_seen of
                     Inl e \<Rightarrow> Inl e
                   | Inr (self1, erased1) \<Rightarrow>
                       (case map_of (value_dict self1) vbl_format of
                          None \<Rightarrow>
                            Inr (self1\<lparr>variable_format_dict :=
                                   AList.delete vbl_label (variable_format_dict self1)\<rparr>,
                                 erased1, insert vbl_format formats_seen)
                        | Some vd1 \<Rightarrow> Inr (self1, erased1, insert vbl_format formats_seen))))))"

fun clean_loop :: "string list \<Rightarrow> clean_state \<Rightarrow> py_error + clean_state" where
  "clean_loop [] cs = Inr cs"
| "clean_loop (vbl_label # rest) cs =
     (case clean_step vbl_label cs of Inl e \<Rightarrow> Inl e | Inr cs1 \<Rightarrow> clean_loop rest cs1)"

definition clean_formats :: "data_dictionary \<Rightarrow> py_error + data_dictionary" where
  "clean_formats self =
     (case clean_loop (map fst (variable_format_dict self)) (self, [], {}) of
        Inl e \<Rightarrow> Inl e
      | Inr (self1, erased, formats_seen) \<Rightarrow> Inr self1)"

subsection \<open>parse\<close>

text \<open>
  What one iteration of the loop of \<open>parse\<close> does for its field: it stores a value under
  the display name, or leaves the field out silently, or leaves it out after a call of
  \<open>print\<close> (the line printed is kept).
\<close>

datatype outcome = Stored string pyval | Skipped | Diagnosed string

text \<open>The value of a field once parsed by its declared type: an integer or the raw string.\<close>

datatype scalar = SInt int | SStr string

definition key_of :: "scalar \<Rightarrow> key" where
  "key_of v = (case v of SInt i \<Rightarrow> KNum (real_of_int i) | SStr s \<Rightarrow> KStr s)"

definition scalar_val :: "scalar \<Rightarrow> pyval" where
  "scalar_val v = (case v of SInt i \<Rightarrow> PInt i | SStr s \<Rightarrow> PStr s)"

definition display_val :: "display \<Rightarrow> pyval" where
  "display_val d = (case d of DStr s \<Rightarrow> PStr s | DBool b \<Rightarrow> PBool b)"

definition str_display :: "display \<Rightarrow> string" where
  "str_display d = (case d of DStr s \<Rightarrow> s | DBool b \<Rightarrow> if b then ''True'' else ''False'')"

definition is_text :: "display \<Rightarrow> bool" where
  "is_text d = (case d of DStr s \<Rightarrow> True | DBool b \<Rightarrow> False)"

text \<open>\<open>value == ' ' * len(value) or value == '*' * len(value)\<close>\<close>

definition is_blank :: "string \<Rightarrow> bool" where
  "is_blank v = (v = replicate (length v) CHR '' '' \<or> v = replicate (length v) CHR ''*'')"

text \<open>Lines 191 to 201: the field for the first time of breastfeeding.\<close>

definition decode_marker :: "string \<Rightarrow> string \<Rightarrow> py_error + outcome" where
  "decode_marker vbl_name raw =
     (case py_int raw of
        None \<Rightarrow> Inl ValueError
      | Some v \<Rightarrow>
          if v = 0 then Inr (Stored vbl_name (PStr ''Immediately''))
          else if v > 100 \<and> v < 200 then
            Inr (Stored vbl_name (PStr (str_int (v - 100) @ '' hours'')))
          else if v > 200 \<and> v < 300 then
            Inr (Stored vbl_name (PStr (str_int (v - 200) @ '' days'')))
          else Inr (Diagnosed (str_int v @ '' is not a valid value for '' @ vbl_name)))"

text \<open>
  The two loops of the float branch: the first entry whose key is within \<open>FLOAT_ERROR\<close>
  of the value. Subtracting a string key from a float raises \<open>TypeError\<close>.
\<close>

fun float_scan :: "real \<Rightarrow> (key, 'a) dict \<Rightarrow> py_error + 'a option" where
  "float_scan v [] = Inr None"
| "float_scan v ((k, x) # rest) =
     (case k of
        KStr s \<Rightarrow> Inl TypeError
      | KNum q \<Rightarrow> if \<bar>v - q\<bar> \<le> FLOAT_ERROR then Inr (Some x) else float_scan v rest)"

text \<open>Lines 218 to 246.\<close>

definition decode_float :: "data_dictionary \<Rightarrow> string \<Rightarrow> string \<Rightarrow> real \<Rightarrow> py_error + outcome" where
  "decode_float self vbl_label vbl_name v =
     (case float_scan v (null_dict self vbl_label) of
        Inl e \<Rightarrow> Inl e
      | Inr (Some null_value) \<Rightarrow> Inr (Stored vbl_name null_value)
      | Inr None \<Rightarrow>
          (case map_of (variable_format_dict self) vbl_label of
             None \<Rightarrow> Inr (Stored vbl_name (PFloat v))
           | Some vbl_format \<Rightarrow>
               (case map_of (value_dict self) vbl_format of
                  None \<Rightarrow> Inr (Diagnosed (vbl_format @ '' value dictionary not found.''))
                | Some vd \<Rightarrow>
                    (case float_scan v vd of
                       Inl e \<Rightarrow> Inl e
                     | Inr (Some shown) \<Rightarrow> Inr (Stored vbl_name (PStr (str_display shown)))
                     | Inr None \<Rightarrow> Inr (Stored vbl_name (PFloat v))))))"

text \<open>
  Lines 260 to 265. \<open>re_search\<close> is Python's \<open>re.search\<close> on two strings, a parameter of
  the model: it answers whether the pattern matches somewhere, or raises. A key that
  is a number is not a pattern, and \<open>join\<close> accepts strings only.
\<close>

fun multi_select ::
  "(string \<Rightarrow> string \<Rightarrow> py_error + bool) \<Rightarrow> (key, display) dict \<Rightarrow> string \<Rightarrow>
   py_error + display list" where
  "multi_select re_search [] raw = Inr []"
| "multi_select re_search ((encoded_val, display_value) # rest) raw =
     (case encoded_val of
        KNum q \<Rightarrow> Inl TypeError
      | KStr pat \<Rightarrow>
          (case re_search pat raw of
             Inl e \<Rightarrow> Inl e
           | Inr found \<Rightarrow>
               (case multi_select re_search rest raw of
                  Inl e \<Rightarrow> Inl e
                | Inr display_vals \<Rightarrow>
                    Inr (if found then display_value # display_vals else display_vals))))"

definition join_displays :: "display list \<Rightarrow> py_error + string" where
  "join_displays display_vals =
     (if list_all is_text display_vals then Inr (join_comma (map str_display display_vals))
      else Inl TypeError)"

text \<open>Lines 248 to 274, for a field of type int or string.\<close>

definition decode_exact ::
  "(string \<Rightarrow> string \<Rightarrow> py_error + bool) \<Rightarrow> data_dictionary \<Rightarrow> string \<Rightarrow> string \<Rightarrow>
   vbl_type \<Rightarrow> scalar \<Rightarrow> py_error + outcome" where
  "decode_exact re_search self vbl_label vbl_name ty v =
     (case map_of (null_dict self vbl_label) (key_of v) of
        Some null_value \<Rightarrow> Inr (Stored vbl_name null_value)
      | None \<Rightarrow>
          (case map_of (variable_format_dict self) vbl_label of
             None \<Rightarrow> Inr (Stored vbl_name (scalar_val v))
           | Some vbl_format \<Rightarrow>
               (case map_of (value_dict self) vbl_format of
                  None \<Rightarrow> Inr (Diagnosed (vbl_format @ '' value dictionary not found.''))
                | Some vd \<Rightarrow>
                    (case map_of vd (key_of v) of
                       Some shown \<Rightarrow> Inr (Stored vbl_name (display_val shown))
                     | None \<Rightarrow>
                         if ty = TString then
                           (case v of
                              SInt i \<Rightarrow> Inl TypeError
                            | SStr raw \<Rightarrow>
                                (case multi_select re_search vd raw of
                                   Inl e \<Rightarrow> Inl e
                                 | Inr display_vals \<Rightarrow>
                                     (case join_displays display_vals of
                                        Inl e \<Rightarrow> Inl e
                                      | Inr joined \<Rightarrow> Inr (Stored vbl_name (PStr joined)))))
                         else
                           (case v of
                              SInt i \<Rightarrow> Inr (Stored vbl_name (PStr (str_int i)))
                            | SStr raw \<Rightarrow> Inr (Stored vbl_name (PStr raw)))))))"

text \<open>
  Lines 178 to 274: the field from its extracted substring on. \<open>py_float\<close> is Python's
  \<open>float\<close> on a string, a parameter of the model: \<open>None\<close> when it raises.
\<close>

definition decode_value ::
  "(string \<Rightarrow> real option) \<Rightarrow> (string \<Rightarrow> string \<Rightarrow> py_error + bool) \<Rightarrow> data_dictionary \<Rightarrow>
   string \<Rightarrow> string \<Rightarrow> py_error + outcome" where
  "decode_value py_float re_search self vbl_label raw =
     (case map_of (variable_dict self) vbl_label of
        None \<Rightarrow> Inr (Diagnosed (vbl_label @ '' not found in schema '' @ name self))
      | Some vbl_name \<Rightarrow>
          if is_blank raw then
            (case map_of (variable_type self) vbl_label of
               None \<Rightarrow> Inl KeyError
             | Some ty \<Rightarrow> Inr (Stored vbl_name (if ty = TString then PStr [] else PNone)))
          else if contains BF_IDENTIFIER vbl_name then decode_marker vbl_name raw
          else
            (case map_of (variable_type self) vbl_label of
               None \<Rightarrow> Inl KeyError
             | Some TInt \<Rightarrow>
                 (case py_int raw of
                    None \<Rightarrow> Inr (Diagnosed (''Cannot parse |'' @ raw @ ''| as int for field |'' @
                                            vbl_label @ ''| in schema '' @ name self))
                  | Some i \<Rightarrow> decode_exact re_search self vbl_label vbl_name TInt (SInt i))
             | Some TFloat \<Rightarrow>
                 (case py_float raw of
                    None \<Rightarrow> Inr (Diagnosed (''Cannot parse |'' @ raw @ ''| as float for field |'' @
                                            vbl_label @ ''| in schema '' @ name self))
                  | Some v \<Rightarrow> decode_float self vbl_label vbl_name v)
             | Some TString \<Rightarrow> decode_exact re_search self vbl_label vbl_name TString (SStr raw)))"

text \<open>Lines 175 to 177, then the rest of the iteration.\<close>

definition parse_field ::
  "(string \<Rightarrow> real option) \<Rightarrow> (string \<Rightarrow> string \<Rightarrow> py_error + bool) \<Rightarrow> data_dictionary \<Rightarrow>
   string \<Rightarrow> string \<Rightarrow> byte_range \<Rightarrow> py_error + outcome" where
  "parse_field py_float re_search self record vbl_label bytedict =
     (if end_pos bytedict \<ge> int (length record) - 1 then Inr Skipped
      else decode_value py_float re_search self vbl_label
             (py_slice record (start_pos bytedict) (end_pos bytedict)))"

type_synonym record_dict = "(string, pyval) dict"

fun parse_loop ::
  "(string \<Rightarrow> real option) \<Rightarrow> (string \<Rightarrow> string \<Rightarrow> py_error + bool) \<Rightarrow> data_dictionary \<Rightarrow>
   string \<Rightarrow> (string, byte_range) dict \<Rightarrow> record_dict \<times> string list \<Rightarrow>
   py_error + record_dict \<times> string list" where
  "parse_loop py_float re_search self record [] acc = Inr acc"
| "parse_loop py_float re_search self record ((vbl_label, bytedict) # rest) acc =
     (case parse_field py_float re_search self record vbl_label bytedict of
        Inl e \<Rightarrow> Inl e
      | Inr Skipped \<Rightarrow> parse_loop py_float re_search self record rest acc
      | Inr (Diagnosed line) \<Rightarrow>
          parse_loop py_float re_search self record rest (fst acc, snd acc @ [line])
      | Inr (Stored vbl_name v) \<Rightarrow>
          parse_loop py_float re_search self record rest (AList.update vbl_name v (fst acc), snd acc))"

text \<open>
  \<open>parse\<close> returns the record dictionary; the second component is what it printed.
\<close>

definition parse ::
  "(string \<Rightarrow> real option) \<Rightarrow> (string \<Rightarrow> string \<Rightarrow> py_error + bool) \<Rightarrow> data_dictionary \<Rightarrow>
   string \<Rightarrow> py_error + record_dict \<times> string list" where
  "parse py_float re_search self record =
     parse_loop py_float re_search self record (bytewise_encoding self) ([], [])"



section \<open>Notions used to state the properties\<close>

text \<open>The number a string of decimal digits denotes.\<close>

definition digits_value :: "string \<Rightarrow> nat" where
  "digits_value ds = foldl (\<lambda>a c. 10 * a + digit_val c) 0 ds"

text \<open>
  The null replacement for a one-entry dictionary whose display value is \<open>shown\<close>, on a
  field of type \<open>ty\<close>: the two named sentinels first, then by type.
\<close>

definition sentinel_null :: "vbl_type \<Rightarrow> display \<Rightarrow> pyval" where
  "sentinel_null ty shown =
     (if shown = DStr ''No births'' then PInt 0
      else if shown = DStr ''Flagged cases'' then PInt 999999
      else if ty = TString then PStr [] else PNone)"

text \<open>A dictionary with \<open>"Yes"\<close> replaced by true and every other display value by false.\<close>

definition to_bool :: "(key, display) dict \<Rightarrow> (key, display) dict" where
  "to_bool vd = map (\<lambda>(k, shown). (k, DBool (shown = DStr ''Yes''))) vd"

definition yes_no :: "(key, display) dict \<Rightarrow> bool" where
  "yes_no vd = (length vd = 2 \<and> set (map snd vd) = {DStr ''Yes'', DStr ''No''})"

definition lone_sentinel :: "(key, display) dict \<Rightarrow> bool" where
  "lone_sentinel vd = (length vd = 1 \<and> snd (hd vd) \<in> set sentinel_names)"

text \<open>A dictionary that \<open>clean_formats\<close> leaves as it is.\<close>

definition settled :: "(key, display) dict \<Rightarrow> bool" where
  "settled vd = (\<not> (length vd = 1 \<and> snd (hd vd) \<in> set sentinel_names) \<and>
                 \<not> (length vd = 2 \<and> set (map snd vd) = {DStr ''Yes'', DStr ''No''}))"

text \<open>
  The invariant of the loop of \<open>clean_formats\<close>: the dictionary of a format already seen
  is settled if it is still there, and a label already handled that still has a format
  has one that was seen and whose dictionary is there.
\<close>

definition inv_seen :: "data_dictionary \<Rightarrow> string set \<Rightarrow> bool" where
  "inv_seen s seen = (\<forall>f vd. f \<in> seen \<longrightarrow> map_of (value_dict s) f = Some vd \<longrightarrow> settled vd)"

definition inv_done :: "string set \<Rightarrow> data_dictionary \<Rightarrow> string set \<Rightarrow> bool" where
  "inv_done P s seen = (\<forall>l f. l \<in> P \<longrightarrow> map_of (variable_format_dict s) l = Some f \<longrightarrow>
       f \<in> seen \<and> map_of (value_dict s) f \<noteq> None)"









section \<open>Instances of the library parameters and example dictionaries\<close>

text \<open>\<open>re.search\<close> for patterns without metacharacters.\<close>

definition literal_search :: "string \<Rightarrow> string \<Rightarrow> py_error + bool" where
  "literal_search pat s = Inr (contains pat s)"

text \<open>\<open>float\<close> for unsigned decimal literals such as \<open>9.0005\<close>.\<close>

definition decimal_float :: "string \<Rightarrow> real option" where
  "decimal_float s =
     (let t = strip s; whole = takeWhile is_digit t; rest = dropWhile is_digit t
      in case rest of
           [] \<Rightarrow> if whole = [] then None else Some (real (digits_value whole))
         | c # decimals \<Rightarrow>
             if c = CHR ''.'' \<and> whole \<noteq> [] \<and> list_all is_digit decimals
             then Some (real (digits_value whole) +
                        real (digits_value decimals) / 10 ^ length decimals)
             else None)"

definition ex_marker :: data_dictionary where
  "ex_marker =
     \<lparr>name = ''KEBR'',
      variable_dict = [(''M34'', ''M34 When child put to breast'')],
      variable_format_dict = [],
      vbls_seen = {''M34 When child put to breast''},
      variable_type = [(''M34'', TInt)],
      bytewise_encoding = [(''M34'', \<lparr>start_pos = 0, end_pos = 3\<rparr>)],
      null_encoding = [],
      value_dict = []\<rparr>"



definition ex_formats :: data_dictionary where
  "ex_formats =
     \<lparr>name = ''KEHR'',
      variable_dict = [(''Q2'', ''Q2 Has radio''), (''Q3'', ''Q3 Has tv''), (''Q8'', ''Q8 Births''),
                       (''Q9'', ''Q9 Age''), (''QF'', ''QF Net''), (''Q7'', ''Q7 Region'')],
      variable_format_dict = [(''Q2'', ''F1''), (''Q3'', ''F1''), (''Q8'', ''F2''),
                              (''Q9'', ''F2''), (''QF'', ''F1''), (''Q7'', ''F3'')],
      vbls_seen = {''Q2 Has radio'', ''Q3 Has tv'', ''Q8 Births'', ''Q9 Age'', ''QF Net'',
                   ''Q7 Region''},
      variable_type = [(''Q2'', TInt), (''Q3'', TInt), (''Q8'', TInt), (''Q9'', TString),
                       (''QF'', TFloat), (''Q7'', TInt)],
      bytewise_encoding = [(''Q2'', \<lparr>start_pos = 0, end_pos = 1\<rparr>),
                           (''Q3'', \<lparr>start_pos = 1, end_pos = 2\<rparr>),
                           (''Q8'', \<lparr>start_pos = 2, end_pos = 3\<rparr>),
                           (''Q9'', \<lparr>start_pos = 3, end_pos = 4\<rparr>),
                           (''QF'', \<lparr>start_pos = 4, end_pos = 7\<rparr>),
                           (''Q7'', \<lparr>start_pos = 7, end_pos = 8\<rparr>)],
      null_encoding = [],
      value_dict = [(''F1'', [(KNum 1, DStr ''Yes''), (KNum 2, DStr ''No'')]),
                    (''F2'', [(KNum 9, DStr ''DK'')]),
                    (''F3'', [(KNum 1, DStr ''Urban'')])]\<rparr>"

text \<open>What \<open>clean_formats\<close> makes of \<open>ex_formats\<close>.\<close>

definition ex_formats_clean :: data_dictionary where
  "ex_formats_clean =
     ex_formats
       \<lparr>variable_format_dict := [(''Q2'', ''F1''), (''Q3'', ''F1''), (''QF'', ''F1''),
                                 (''Q7'', ''F3'')],
        null_encoding := [(''Q8'', [(KNum 9, PNone)]), (''Q9'', [(KNum 9, PNone)])],
        value_dict := [(''F1'', [(KNum 1, DBool True), (KNum 2, DBool False)]),
                       (''F3'', [(KNum 1, DStr ''Urban'')])]\<rparr>"

section \<open>Lemmas\<close>











lemma digit_val_fold:
  "foldl (\<lambda>a c. 10 * a + digit_val c) (digit_val c) cs =
   foldl (\<lambda>a c. 10 * a + digit_val c) 0 (c # cs)"
  by simp














lemma put_null_frame [simp]:
  "value_dict (put_null l k v s) = value_dict s"
  "variable_format_dict (put_null l k v s) = variable_format_dict s"
  "variable_type (put_null l k v s) = variable_type s"
  "variable_dict (put_null l k v s) = variable_dict s"
  "bytewise_encoding (put_null l k v s) = bytewise_encoding s"
  "name (put_null l k v s) = name s"
  "vbls_seen (put_null l k v s) = vbls_seen s"
  by (simp_all add: put_null_def)

lemma ensure_null_frame [simp]:
  "value_dict (ensure_null l s) = value_dict s"
  "variable_format_dict (ensure_null l s) = variable_format_dict s"
  "variable_type (ensure_null l s) = variable_type s"
  "variable_dict (ensure_null l s) = variable_dict s"
  "bytewise_encoding (ensure_null l s) = bytewise_encoding s"
  "name (ensure_null l s) = name s"
  "vbls_seen (ensure_null l s) = vbls_seen s"
  by (simp_all add: ensure_null_def split: option.splits)

lemma put_nulls_frame [simp]:
  "value_dict (put_nulls l rules s) = value_dict s"
  "variable_format_dict (put_nulls l rules s) = variable_format_dict s"
  "variable_type (put_nulls l rules s) = variable_type s"
  "variable_dict (put_nulls l rules s) = variable_dict s"
  "bytewise_encoding (put_nulls l rules s) = bytewise_encoding s"
  "name (put_nulls l rules s) = name s"
  "vbls_seen (put_nulls l rules s) = vbls_seen s"
  unfolding put_nulls_def by (induction rules arbitrary: s; simp add: split_beta)+

lemma null_dict_ensure [simp]: "null_dict (ensure_null l s) l' = null_dict s l'"
  by (simp add: null_dict_def ensure_null_def update_conv' split: option.splits)

lemma null_dict_put:
  "null_dict (put_null l k v s) l' =
     (if l' = l then AList.update k v (null_dict s l) else null_dict s l')"
  by (simp add: null_dict_def put_null_def update_conv')

lemma null_dict_frame_update [simp]:
  "null_dict (s\<lparr>value_dict := x\<rparr>) l = null_dict s l"
  "null_dict (s\<lparr>variable_format_dict := y\<rparr>) l = null_dict s l"
  by (simp_all add: null_dict_def)

lemma put_null_twice: "put_null l k v (put_null l k w s) = put_null l k v s"
  by (simp add: put_null_def null_dict_def update_conv')




lemma resolve_format_cases:
  assumes "resolve_format l f vd s er seen = Inr (s', er')"
  obtains
    (erase) k shown ty where "vd = [(k, shown)]" "f \<notin> seen" "shown \<in> set sentinel_names"
      "map_of (variable_type s) l = Some ty"
      "s' = (put_null l k (sentinel_null ty shown) (ensure_null l s))
              \<lparr>value_dict := AList.delete f (value_dict s)\<rparr>"
      "er' = AList.update f [(k, sentinel_null ty shown)] er"
  | (convert) "yes_no vd" "s' = s\<lparr>value_dict := AList.update f (to_bool vd) (value_dict s)\<rparr>"
      "er' = er"
  | (keep) "\<not> (lone_sentinel vd \<and> f \<notin> seen)" "\<not> yes_no vd" "s' = s" "er' = er"
proof (cases "length vd = 1 \<and> f \<notin> seen")
  case True
  then obtain k shown where vd: "vd = [(k, shown)]"
    by (cases vd) auto
  show ?thesis
  proof (cases "shown \<in> set sentinel_names")
    case sent: True
    then obtain ty where ty: "map_of (variable_type s) l = Some ty"
      using assms True vd by (auto simp: resolve_format_def split: option.splits)
    have nd: "map_of (null_dict (put_null l k v (ensure_null l s)) l) k = Some v" for v
      by (simp add: null_dict_put update_conv')
    have "s' = (put_null l k (sentinel_null ty shown) (ensure_null l s))
              \<lparr>value_dict := AList.delete f (value_dict s)\<rparr> \<and>
          er' = AList.update f [(k, sentinel_null ty shown)] er"
      using assms True vd sent ty
      by (auto simp: resolve_format_def sentinel_null_def FLAGGED_CASES_def Let_def
            put_null_twice null_dict_put update_conv' split: option.splits if_splits)
    then show ?thesis using erase vd True sent ty by blast
  next
    case False
    then have "s' = s" "er' = er"
      using assms True vd by (auto simp: resolve_format_def)
    moreover have "\<not> lone_sentinel vd" using False vd by (simp add: lone_sentinel_def)
    moreover have "\<not> yes_no vd" using vd by (simp add: yes_no_def)
    ultimately show ?thesis using keep by blast
  qed
next
  case False
  then have r1: "(length vd = 1 \<and> f \<notin> seen) = False" by simp
  show ?thesis
  proof (cases "yes_no vd")
    case True
    then have r2: "(length vd = 2 \<and> set (map snd vd) = {DStr ''Yes'', DStr ''No''}) = True"
      by (simp add: yes_no_def)
    have "resolve_format l f vd s er seen =
        Inr (s\<lparr>value_dict := AList.update f (to_bool vd) (value_dict s)\<rparr>, er)"
      by (simp only: resolve_format_def r1 r2 if_False if_True to_bool_def)
    then have "s' = s\<lparr>value_dict := AList.update f (to_bool vd) (value_dict s)\<rparr>" "er' = er"
      using assms by simp_all
    then show ?thesis using convert True by blast
  next
    case ny: False
    then have r2: "(length vd = 2 \<and> set (map snd vd) = {DStr ''Yes'', DStr ''No''}) = False"
      by (simp add: yes_no_def)
    have "resolve_format l f vd s er seen = Inr (s, er)"
      by (simp only: resolve_format_def r1 r2 if_False)
    then have "s' = s" "er' = er"
      using assms by simp_all
    moreover have "\<not> (lone_sentinel vd \<and> f \<notin> seen)"
      using False by (auto simp: lone_sentinel_def)
    ultimately show ?thesis using keep ny by blast
  qed
qed

lemma clean_step_cases:
  assumes "clean_step l (s, er, seen) = Inr (s', er', seen')"
  obtains
    (missing) f where "map_of (variable_format_dict s) l = Some f"
      "map_of (value_dict s) f = None" "map_of er f = None"
      "s' = s\<lparr>variable_format_dict := AList.delete l (variable_format_dict s)\<rparr>"
      "er' = er" "seen' = seen"
  | (propagate) f rules where "map_of (variable_format_dict s) l = Some f"
      "map_of (value_dict s) f = None" "map_of er f = Some rules"
      "s' = put_nulls l rules (ensure_null l
              (s\<lparr>variable_format_dict := AList.delete l (variable_format_dict s)\<rparr>))"
      "er' = er" "seen' = seen"
  | (erase) f k shown ty where "map_of (variable_format_dict s) l = Some f"
      "map_of (value_dict s) f = Some [(k, shown)]" "f \<notin> seen"
      "shown \<in> set sentinel_names" "map_of (variable_type s) l = Some ty"
      "s' = (put_null l k (sentinel_null ty shown) (ensure_null l s))
              \<lparr>value_dict := AList.delete f (value_dict s),
               variable_format_dict := AList.delete l (variable_format_dict s)\<rparr>"
      "er' = AList.update f [(k, sentinel_null ty shown)] er" "seen' = insert f seen"
  | (convert) f vd where "map_of (variable_format_dict s) l = Some f"
      "map_of (value_dict s) f = Some vd" "yes_no vd"
      "s' = s\<lparr>value_dict := AList.update f (to_bool vd) (value_dict s)\<rparr>"
      "er' = er" "seen' = insert f seen"
  | (keep) f vd where "map_of (variable_format_dict s) l = Some f"
      "map_of (value_dict s) f = Some vd" "\<not> (lone_sentinel vd \<and> f \<notin> seen)" "\<not> yes_no vd"
      "s' = s" "er' = er" "seen' = insert f seen"
proof -
  obtain f where f: "map_of (variable_format_dict s) l = Some f"
    using assms by (auto simp: clean_step_def split: option.splits)
  show ?thesis
  proof (cases "map_of (value_dict s) f")
    case None
    show ?thesis
    proof (cases "map_of er f")
      case en: None
      have "s' = s\<lparr>variable_format_dict := AList.delete l (variable_format_dict s)\<rparr>"
        "er' = er" "seen' = seen"
        using assms f None en by (simp_all add: clean_step_def)
      then show ?thesis using missing [OF f None en] by blast
    next
      case (Some rules)
      have "s' = put_nulls l rules (ensure_null l
              (s\<lparr>variable_format_dict := AList.delete l (variable_format_dict s)\<rparr>))"
        "er' = er" "seen' = seen"
        using assms f None Some by (simp_all add: clean_step_def)
      then show ?thesis using propagate [OF f None Some] by blast
    qed
  next
    case (Some vd)
    then obtain s1 er1 where r: "resolve_format l f vd s er seen = Inr (s1, er1)"
      using assms f by (auto simp: clean_step_def split: sum.splits)
    have step: "(case map_of (value_dict s1) f of
                   None \<Rightarrow> Inr (s1\<lparr>variable_format_dict :=
                                    AList.delete l (variable_format_dict s1)\<rparr>,
                               er1, insert f seen)
                 | Some vd1 \<Rightarrow> Inr (s1, er1, insert f seen)) =
                (Inr (s', er', seen') :: py_error + clean_state)"
      using assms f Some r by (simp add: clean_step_def)
    from r show ?thesis
    proof (cases rule: resolve_format_cases)
      case (erase k shown ty)
      have "map_of (value_dict s1) f = None"
        using erase(5) by (simp add: delete_conv')
      then have "s' = s1\<lparr>variable_format_dict := AList.delete l (variable_format_dict s1)\<rparr>"
        "er' = er1" "seen' = insert f seen"
        using step by simp_all
      then have "s' = (put_null l k (sentinel_null ty shown) (ensure_null l s))
              \<lparr>value_dict := AList.delete f (value_dict s),
               variable_format_dict := AList.delete l (variable_format_dict s)\<rparr>"
        "er' = AList.update f [(k, sentinel_null ty shown)] er"
        using erase(5,6) by simp_all
      moreover have "map_of (value_dict s) f = Some [(k, shown)]"
        using Some erase(1) by simp
      ultimately show ?thesis
        using that(3) [OF f _ erase(2,3,4)] \<open>seen' = insert f seen\<close> by blast
    next
      case convert
      have "map_of (value_dict s1) f = Some (to_bool vd)"
        using convert(2) by (simp add: update_conv')
      then have "s' = s1" "er' = er1" "seen' = insert f seen"
        using step by simp_all
      then show ?thesis
        using that(4) [OF f Some convert(1)] convert(2,3) by blast
    next
      case keep
      then have "s' = s1" "er' = er1" "seen' = insert f seen"
        using step Some by simp_all
      then show ?thesis
        using that(5) [OF f Some keep(1,2)] keep(3,4) by blast
    qed
  qed
qed

lemma clean_step_keep:
  assumes "map_of (variable_format_dict s) l = Some f" "map_of (value_dict s) f = Some vd"
    "\<not> lone_sentinel vd" "\<not> yes_no vd"
  shows "clean_step l (s, er, seen) = Inr (s, er, insert f seen)"
proof -
  have r1: "(length vd = 1 \<and> f \<notin> seen) = False \<or> (\<exists>k shown. vd = [(k, shown)] \<and> shown \<notin> set sentinel_names)"
    using assms(3) by (cases vd) (auto simp: lone_sentinel_def)
  have r2: "(length vd = 2 \<and> set (map snd vd) = {DStr ''Yes'', DStr ''No''}) = False"
    using assms(4) by (simp add: yes_no_def)
  have "resolve_format l f vd s er seen = Inr (s, er)"
    using r1
  proof
    assume a: "(length vd = 1 \<and> f \<notin> seen) = False"
    show ?thesis by (simp only: resolve_format_def a r2 if_False)
  next
    assume "\<exists>k shown. vd = [(k, shown)] \<and> shown \<notin> set sentinel_names"
    then show ?thesis by (auto simp: resolve_format_def)
  qed
  then show ?thesis using assms(1,2) by (simp add: clean_step_def)
qed

lemma settled_iff: "settled vd \<longleftrightarrow> \<not> lone_sentinel vd \<and> \<not> yes_no vd"
  by (simp add: settled_def lone_sentinel_def yes_no_def)

lemma to_bool_settled: "yes_no vd \<Longrightarrow> settled (to_bool vd)"
proof -
  assume y: "yes_no vd"
  then obtain k shown where "(k, shown) \<in> set vd"
    by (cases vd) (auto simp: yes_no_def)
  then have "DBool (shown = DStr ''Yes'') \<in> set (map snd (to_bool vd))"
    by (force simp: to_bool_def)
  then have "set (map snd (to_bool vd)) \<noteq> {DStr ''Yes'', DStr ''No''}"
    by auto
  moreover have "length (to_bool vd) = 2" using y by (simp add: yes_no_def to_bool_def)
  ultimately show ?thesis by (simp add: settled_def)
qed

lemma clean_step_inv:
  assumes "clean_step l (s, er, seen) = Inr (s', er', seen')"
    and "inv_seen s seen" "inv_done P s seen"
  shows "inv_seen s' seen' \<and> inv_done (insert l P) s' seen'"
  using assms(1)
proof (cases rule: clean_step_cases)
  case (missing f)
  then show ?thesis
    using assms(2,3) by (auto simp: inv_seen_def inv_done_def delete_conv')
next
  case (propagate f rules)
  then show ?thesis
    using assms(2,3) by (auto simp: inv_seen_def inv_done_def delete_conv')
next
  case (erase f k shown ty)
  then show ?thesis
    using assms(2,3) by (auto simp: inv_seen_def inv_done_def delete_conv')
next
  case (convert f vd)
  then show ?thesis
    using assms(2,3) to_bool_settled [OF convert(3)]
    by (auto simp: inv_seen_def inv_done_def update_conv')
next
  case (keep f vd)
  have "settled vd"
    using keep(2,3,4) assms(2) by (auto simp: inv_seen_def settled_iff)
  then show ?thesis
    using keep assms(2,3) by (auto simp: inv_seen_def inv_done_def)
qed

lemma clean_loop_inv:
  assumes "clean_loop ls (s, er, seen) = Inr (s', er', seen')"
    and "inv_seen s seen" "inv_done P s seen"
  shows "inv_seen s' seen' \<and> inv_done (P \<union> set ls) s' seen'"
  using assms
proof (induction ls arbitrary: s er seen P)
  case Nil
  then show ?case by simp
next
  case (Cons l ls)
  from Cons.prems(1) obtain s1 er1 seen1 where
    st: "clean_step l (s, er, seen) = Inr (s1, er1, seen1)"
    and lp: "clean_loop ls (s1, er1, seen1) = Inr (s', er', seen')"
    by (auto split: sum.splits)
  have "inv_seen s1 seen1 \<and> inv_done (insert l P) s1 seen1"
    using clean_step_inv [OF st Cons.prems(2,3)] .
  then have "inv_seen s' seen' \<and> inv_done (insert l P \<union> set ls) s' seen'"
    using Cons.IH [OF lp] by blast
  then show ?case by simp
qed

lemma clean_step_format_kept:
  assumes "clean_step l (s, er, seen) = Inr (s', er', seen')"
    and "map_of (variable_format_dict s') l' = Some f"
  shows "map_of (variable_format_dict s) l' = Some f"
  using assms(1)
proof (cases rule: clean_step_cases)
  case (missing g)
  then show ?thesis using assms(2) by (auto simp: delete_conv' split: if_splits)
next
  case (propagate g rules)
  then show ?thesis using assms(2) by (auto simp: delete_conv' split: if_splits)
next
  case (erase g k shown ty)
  then show ?thesis using assms(2) by (auto simp: delete_conv' split: if_splits)
next
  case (convert g vd)
  then show ?thesis using assms(2) by simp
next
  case (keep g vd)
  then show ?thesis using assms(2) by simp
qed

lemma clean_loop_format_kept:
  assumes "clean_loop ls (s, er, seen) = Inr (s', er', seen')"
    and "map_of (variable_format_dict s') l' = Some f"
  shows "map_of (variable_format_dict s) l' = Some f"
  using assms
proof (induction ls arbitrary: s er seen)
  case Nil
  then show ?case by simp
next
  case (Cons l ls)
  from Cons.prems(1) obtain s1 er1 seen1 where
    st: "clean_step l (s, er, seen) = Inr (s1, er1, seen1)"
    and lp: "clean_loop ls (s1, er1, seen1) = Inr (s', er', seen')"
    by (auto split: sum.splits)
  show ?case
    using clean_step_format_kept [OF st Cons.IH [OF lp Cons.prems(2)]] .
qed

lemma clean_formats_settled:
  assumes "clean_formats s = Inr s'" "map_of (variable_format_dict s') l = Some f"
  shows "\<exists>vd. map_of (value_dict s') f = Some vd \<and> settled vd"
proof -
  obtain er' seen' where
    lp: "clean_loop (map fst (variable_format_dict s)) (s, [], {}) = Inr (s', er', seen')"
    using assms(1) by (auto simp: clean_formats_def split: sum.splits)
  have "inv_seen s {}" "inv_done {} s {}"
    by (simp_all add: inv_seen_def inv_done_def)
  from clean_loop_inv [OF lp this]
  have i1: "inv_seen s' seen'"
    and i2: "inv_done (set (map fst (variable_format_dict s))) s' seen'"
    by simp_all
  have "map_of (variable_format_dict s) l = Some f"
    using clean_loop_format_kept [OF lp assms(2)] .
  then have "l \<in> set (map fst (variable_format_dict s))"
    by (metis map_of_eq_None_iff option.distinct(1) set_map)
  then have "f \<in> seen'" "map_of (value_dict s') f \<noteq> None"
    using i2 assms(2) by (auto simp: inv_done_def)
  then show ?thesis using i1 by (auto simp: inv_seen_def)
qed

lemma clean_loop_settled:
  assumes "\<forall>l\<in>set ls. \<exists>f vd. map_of (variable_format_dict s) l = Some f \<and>
             map_of (value_dict s) f = Some vd \<and> settled vd"
  shows "\<exists>seen'. clean_loop ls (s, er, seen) = Inr (s, er, seen')"
  using assms
proof (induction ls arbitrary: seen)
  case Nil
  then show ?case by simp
next
  case (Cons l ls)
  then obtain f vd where "map_of (variable_format_dict s) l = Some f"
    "map_of (value_dict s) f = Some vd" "settled vd"
    by auto
  then have "clean_step l (s, er, seen) = Inr (s, er, insert f seen)"
    using clean_step_keep by (simp add: settled_iff)
  moreover obtain seen' where "clean_loop ls (s, er, insert f seen) = Inr (s, er, seen')"
    using Cons by fastforce
  ultimately show ?case by simp
qed


















subsection \<open>Evaluating the examples\<close>

lemmas ev = clean_formats_def clean_step_def resolve_format_def sentinel_names_def ensure_null_def
  put_null_def put_nulls_def null_dict_def doubleton_eq_iff

lemmas ev_int = py_int_def strip_def is_space_def dec_nat_def is_digit_def digit_of_def
  digit_val_def str_int_def str_nat.simps digit_char_def digits_value_def

lemmas ev_parse = parse_field_def decode_value_def decode_marker_def decode_exact_def
  decode_float_def py_slice_def slice_bound_def is_blank_def BF_IDENTIFIER_def key_of_def
  scalar_val_def display_val_def str_display_def literal_search_def decimal_float_def
  FLOAT_ERROR_def join_displays_def is_text_def

lemma ex_marker_clean: "clean_formats ex_marker = Inr ex_marker"
  by (simp add: ex_marker_def ev)


lemma ex_formats_cleaned: "clean_formats ex_formats = Inr ex_formats_clean"
  by (simp add: ex_formats_def ex_formats_clean_def ev)


section \<open>The claims\<close>

text \<open>
  Claim C1: \<open>parse\<close> returns a mapping and never raises; a failure in one field only
  leaves that field out. The field for the first time of breastfeeding converts its
  substring with \<open>int\<close> outside any \<open>try\<close>: on a finalized dictionary with such a field,
  the substring \<open>1.5\<close> makes \<open>parse\<close> raise \<open>ValueError\<close>, while an unparsable
  substring in an ordinary integer field is reported and the field left out.
\<close>

theorem marker_field_unparsable_raises:
  "clean_formats ex_marker = Inr ex_marker \<and>
   parse decimal_float literal_search ex_marker ''1.5 \<newline>'' = Inl ValueError \<and>
   parse_field decimal_float literal_search ex_formats_clean ''x1991.01  \<newline>'' ''Q2''
       \<lparr>start_pos = 0, end_pos = 1\<rparr> =
     Inr (Diagnosed ''Cannot parse |x| as int for field |Q2| in schema KEHR'')"
  by (simp add: ex_marker_def ex_formats_def ex_formats_clean_def ev parse_def ev_parse ev_int)












text \<open>
  Claim C6: when \<open>clean_formats\<close> returns, calling it again on the result returns the
  same dictionary.
\<close>

theorem clean_formats_idempotent:
  assumes "clean_formats s = Inr s'"
  shows "clean_formats s' = Inr s'"
proof -
  have "\<forall>l\<in>set (map fst (variable_format_dict s')).
          \<exists>f vd. map_of (variable_format_dict s') l = Some f \<and>
             map_of (value_dict s') f = Some vd \<and> settled vd"
  proof
    fix l assume "l \<in> set (map fst (variable_format_dict s'))"
    then obtain f where f: "map_of (variable_format_dict s') l = Some f"
      by (metis map_of_eq_None_iff not_None_eq set_map)
    then show "\<exists>f vd. map_of (variable_format_dict s') l = Some f \<and>
             map_of (value_dict s') f = Some vd \<and> settled vd"
      using clean_formats_settled [OF assms f] by blast
  qed
  then obtain seen' where
    "clean_loop (map fst (variable_format_dict s')) (s', [], {}) = Inr (s', [], seen')"
    using clean_loop_settled by blast
  then show ?thesis by (simp add: clean_formats_def)
qed

theorem clean_formats_idempotent_witness:
  "clean_formats ex_formats = Inr ex_formats_clean \<and>
   clean_formats ex_formats_clean = Inr ex_formats_clean"
  using clean_formats_idempotent [of ex_formats ex_formats_clean] ex_formats_cleaned
  by simp










end
